theory Spec2Isabelle
  imports Main
begin

section \<open>Data model of \<open>go_ssh/ssh.go\<close>\<close>

text \<open>
  Go strings are byte sequences and are modelled as \<open>string\<close>.  A Go \<open>error\<close> coming
  from the operating system or from a library is an opaque value with a message
  (\<open>Cause\<close>); every \<open>fmt.Errorf\<close> site of \<open>connectToServer\<close> is a constructor of its
  own, so that the stage which failed can be read off the value.  \<open>Error_msg\<close> is the
  method \<open>err.Error()\<close>.
\<close>

datatype error =
    Cause string
  | HomeDirError error
  | KeyReadError string error
  | KeyParseError string error
  | DialError string error
  | SessionError string error

fun Error_msg :: "error \<Rightarrow> string" where
  "Error_msg (Cause m) = m"
| "Error_msg (HomeDirError e) = ''failed to get home directory: '' @ Error_msg e"
| "Error_msg (KeyReadError p e) =
     ''failed to read private key '' @ p @ '': '' @ Error_msg e"
| "Error_msg (KeyParseError p e) =
     ''failed to parse private key '' @ p @ '': '' @ Error_msg e"
| "Error_msg (DialError a e) =
     ''failed to connect to server '' @ a @ '': '' @ Error_msg e"
| "Error_msg (SessionError a e) =
     ''failed to create session on server '' @ a @ '': '' @ Error_msg e"

text \<open>The struct \<open>Server\<close> and the struct \<open>Config\<close> of the inventory file.\<close>

record Server =
  Alias :: string
  Address :: string
  Port :: int
  User :: string
  Password :: string
  PrivateKey :: string
  UseKey :: bool

record Config =
  Servers :: "Server list"

text \<open>
  The library's \<open>ssh.AuthMethod\<close> and \<open>ssh.ClientConfig\<close>.  A parsed private key
  (\<open>ssh.Signer\<close>) is opaque; \<open>connectToServer\<close> always installs
  \<open>ssh.InsecureIgnoreHostKey()\<close> as the host key callback.
\<close>

type_synonym signer = string

datatype AuthMethod = PublicKeys signer | PasswordAuth string

datatype HostKeyPolicy = InsecureIgnoreHostKey

record ClientConfig =
  ConfigUser :: string
  Auth :: "AuthMethod list"
  HostKeyCallback :: HostKeyPolicy

text \<open>The snapshot \<open>*term.State\<close> that \<open>term.MakeRaw\<close> returns is opaque.\<close>

type_synonym term_state = nat

text \<open>The goroutines the terminal controller starts.\<close>

datatype task = SizeWatcher | StderrCopy | StdoutCopy | StdinRelay

text \<open>
  Everything the program does to the outside world is an \<open>action\<close>; a run is the list
  of its actions in program order.  \<open>Go t d\<close> starts goroutine \<open>t\<close>, where \<open>d\<close> tells
  whether the goroutine's body has \<open>defer wg.Done()\<close>.  \<open>RequestPty\<close> and
  \<open>WindowChange\<close> carry their arguments in the order of the call (type, height, width).
\<close>

datatype action =
    UserCurrent
  | ReadFile string
  | ParsePrivateKey string
  | Dial string ClientConfig
  | ClientClose
  | NewSession
  | SessionClose
  | MakeRaw
  | Restore term_state
  | GetSize
  | Getenv string
  | RequestPty string int int
  | WindowChange int int
  | StdinPipe
  | StdoutPipe
  | StderrPipe
  | WgAdd nat
  | Go task bool
  | Shell
  | WgWait
  | SessionWait
  | StdinWrite string
  | Println string
  | Printf string
  | Scanln

text \<open>
  A call that blocks may never come back: \<open>Blocks\<close> is a run that does not return,
  \<open>Returns err\<close> one that returns \<open>err\<close> (\<open>None\<close> is Go's \<open>nil\<close>).
\<close>

datatype outcome = Returns "error option" | Blocks

section \<open>Formatting\<close>

text \<open>The verb \<open>%d\<close> of \<open>fmt\<close>: an integer in decimal.\<close>

definition digit :: "nat \<Rightarrow> char" where
  "digit n = ''0123456789'' ! n"

function nat_dec :: "nat \<Rightarrow> string" where
  "nat_dec n = (if n < 10 then [digit n] else nat_dec (n div 10) @ [digit (n mod 10)])"
  by pat_completeness auto
termination
  by (relation "measure id") auto

declare nat_dec.simps [simp del]

definition int_dec :: "int \<Rightarrow> string" where
  "int_dec i = (if i < 0 then CHR ''-'' # nat_dec (nat (- i)) else nat_dec (nat i))"

section \<open>The key path\<close>

text \<open>
  \<open>strings.Replace(s, old, new, 1)\<close> for a one-byte \<open>old\<close>: the first occurrence of the
  byte, wherever it stands, is replaced by \<open>new\<close>; a string without the byte is
  returned as it is.
\<close>

fun replace_first :: "char \<Rightarrow> string \<Rightarrow> string \<Rightarrow> string" where
  "replace_first c new [] = []"
| "replace_first c new (x # xs) =
     (if x = c then new @ xs else x # replace_first c new xs)"

text \<open>Line 80: \<open>keyPath := strings.Replace(server.PrivateKey, "~", homeDir, 1)\<close>.\<close>

definition keyPath :: "string \<Rightarrow> string \<Rightarrow> string" where
  "keyPath privateKey homeDir = replace_first (CHR ''~'') homeDir privateKey"

section \<open>The resize watcher\<close>

text \<open>
  \<open>updateTerminalSize\<close> starts a goroutine that keeps \<open>termWidth\<close> and \<open>termHeight\<close>
  and handles one value of the signal channel per round of its loop.  A round is
  decided by what the channel delivers: \<open>NilSignal\<close> (the goroutine returns) or a
  \<open>Sigwinch\<close>, with the width, height and error that the \<open>term.GetSize\<close> of this round
  returns.
\<close>

datatype notification = NilSignal | Sigwinch int int "error option"

record watcher_state =
  termWidth :: int
  termHeight :: int

text \<open>
  One round on a \<open>Sigwinch\<close> (lines 133 to 146).  The result of \<open>WindowChange\<close> is
  discarded; the \<open>err\<close> tested afterwards is the one of \<open>term.GetSize\<close>.
\<close>

definition on_sigwinch ::
  "watcher_state \<Rightarrow> int \<Rightarrow> int \<Rightarrow> error option \<Rightarrow> watcher_state \<times> action list" where
  "on_sigwinch st currTermWidth currTermHeight err =
     (if currTermHeight = termHeight st \<and> currTermWidth = termWidth st then (st, [])
      else
        (case err of
           Some e \<Rightarrow>
             (st, [WindowChange currTermHeight currTermWidth,
                   Printf (''Unable to send window-change request: '' @ Error_msg e @ ''.'')])
         | None \<Rightarrow>
             (st\<lparr>termWidth := currTermWidth, termHeight := currTermHeight\<rparr>,
              [WindowChange currTermHeight currTermWidth])))"

text \<open>
  The loop over the notifications delivered so far.  The flag of the result tells
  whether the goroutine is still waiting on the channel (\<open>True\<close>) or has returned.
\<close>

fun watcher_loop ::
  "watcher_state \<Rightarrow> notification list \<Rightarrow> bool \<times> watcher_state \<times> action list" where
  "watcher_loop st [] = (True, st, [])"
| "watcher_loop st (NilSignal # ns) = (False, st, [])"
| "watcher_loop st (Sigwinch w h err # ns) =
     (let (st', as) = on_sigwinch st w h err;
          (waiting, st'', bs) = watcher_loop st' ns
      in (waiting, st'', as @ bs))"

text \<open>
  The goroutine: the first \<open>term.GetSize\<close> (its error is printed and its values are
  kept all the same), then the loop.
\<close>

definition updateTerminalSize ::
  "int \<times> int \<times> error option \<Rightarrow> notification list \<Rightarrow> bool \<times> watcher_state \<times> action list" where
  "updateTerminalSize first ns =
     (case first of (w, h, err) \<Rightarrow>
        (let (waiting, st, as) = watcher_loop \<lparr>termWidth = w, termHeight = h\<rparr> ns
         in (waiting, st,
             (case err of Some e \<Rightarrow> [Println (Error_msg e)] | None \<Rightarrow> []) @ as)))"

text \<open>The resize requests of a run.\<close>

fun is_WindowChange :: "action \<Rightarrow> bool" where
  "is_WindowChange (WindowChange h w) = True"
| "is_WindowChange a = False"

definition resize_requests :: "action list \<Rightarrow> action list" where
  "resize_requests as = filter is_WindowChange as"

section \<open>The input relay\<close>

text \<open>
  The struct \<open>SSHTerminal\<close>: of its fields only \<open>exitMsg\<close> holds data; \<open>Session\<close>,
  \<open>stdin\<close>, \<open>stdout\<close> and \<open>stderr\<close> are handles, whose use shows as actions.
\<close>

record SSHTerminal =
  exitMsg :: string

text \<open>
  One round of the goroutine that handles user input (lines 211 to 228): the bytes
  \<open>buf[:n]\<close> and the error that \<open>os.Stdin.Read\<close> returns, and the error that
  \<open>t.stdin.Write\<close> returns for these bytes if it is called.
\<close>

record stdin_event =
  read_data :: string
  read_err :: "error option"
  write_err :: "error option"

text \<open>
  The loop over the rounds played so far.  The flag of the result tells whether the
  goroutine is still in its loop (\<open>True\<close>: blocked in the next \<open>Read\<close>) or has
  returned.
\<close>

fun inputRelay ::
  "stdin_event list \<Rightarrow> SSHTerminal \<Rightarrow> bool \<times> SSHTerminal \<times> action list" where
  "inputRelay [] t = (True, t, [])"
| "inputRelay (ev # evs) t =
     (case read_err ev of
        Some e \<Rightarrow> (False, t, [Println (Error_msg e)])
      | None \<Rightarrow>
          if 0 < length (read_data ev) then
            (case write_err ev of
               Some e \<Rightarrow>
                 (False, t\<lparr>exitMsg := Error_msg e\<rparr>,
                  [StdinWrite (read_data ev), Println (Error_msg e)])
             | None \<Rightarrow>
                 (let (running, t', as) = inputRelay evs t
                  in (running, t', StdinWrite (read_data ev) # as)))
          else inputRelay evs t)"

section \<open>The terminal controller\<close>

text \<open>
  What the terminal, the environment and the remote side answer during one
  \<open>interactiveSession\<close>: the results of the calls in the order of the code, whether
  the two copies of the remote output end (so that \<open>wg.Wait\<close> returns), whether the
  remote command exits (so that \<open>Session.Wait\<close> returns), the formatted time of the
  deferred message, and what the two goroutines that talk to the operator meet until
  \<open>interactiveSession\<close> returns: the first \<open>term.GetSize\<close> of the size watcher
  and the notifications it receives, and the rounds the input relay plays.
\<close>

record session_env =
  MakeRaw_result :: "error + term_state"
  GetSize_result :: "error + int \<times> int"
  TERM_value :: string
  RequestPty_result :: "error option"
  StdinPipe_result :: "error option"
  StdoutPipe_result :: "error option"
  StderrPipe_result :: "error option"
  Shell_result :: "error option"
  stderr_ends :: bool
  stdout_ends :: bool
  remote_exits :: bool
  Wait_result :: "error option"
  watcher_GetSize :: "int \<times> int \<times> error option"
  notifications :: "notification list"
  stdin_events :: "stdin_event list"
  now_RFC822 :: string

text \<open>
  The first deferred function (lines 153 to 159).  \<open>Fprintln\<close> puts a space between
  its two operands.
\<close>

definition exit_message :: "SSHTerminal \<Rightarrow> string \<Rightarrow> string" where
  "exit_message t now =
     (if exitMsg t = [] then
        ''the connection was closed on the remote side on '' @ '' '' @ now
      else exitMsg t)"

text \<open>
  The goroutines run beside the controller.  Each part of \<open>interactiveSession\<close> below
  returns the calls of the controller and, apart from them, the actions of the
  goroutines it has started: all that the size watcher and the input relay do until
  \<open>interactiveSession\<close> returns.  The program orders these actions only after the \<open>go\<close>
  statement that starts their goroutine; the run of \<open>interactiveSession\<close> lists the
  calls of the controller, then these actions, then the deferred calls.
\<close>

text \<open>Lines 198 to 239: the wait group, the three relays, the shell and the two waits.\<close>

definition relay_and_wait ::
  "session_env \<Rightarrow> SSHTerminal \<Rightarrow> outcome \<times> action list \<times> action list \<times> SSHTerminal" where
  "relay_and_wait env t =
     (let started = [WgAdd 2, Go StderrCopy True, Go StdoutCopy True, Go StdinRelay False];
          (running, t', relay) = inputRelay (stdin_events env) t
      in case Shell_result env of
           Some e \<Rightarrow> (Returns (Some e), started @ [Shell], relay, t')
         | None \<Rightarrow>
             if stderr_ends env \<and> stdout_ends env then
               (if remote_exits env then
                  (Returns (Wait_result env), started @ [Shell, WgWait, SessionWait], relay, t')
                else (Blocks, started @ [Shell, WgWait, SessionWait], relay, t'))
             else (Blocks, started @ [Shell, WgWait], relay, t'))"

text \<open>Lines 185 to 196: the three pipes.\<close>

definition open_streams ::
  "session_env \<Rightarrow> SSHTerminal \<Rightarrow> outcome \<times> action list \<times> action list \<times> SSHTerminal" where
  "open_streams env t =
     (case StdinPipe_result env of
        Some e \<Rightarrow> (Returns (Some e), [StdinPipe], [], t)
      | None \<Rightarrow>
          (case StdoutPipe_result env of
             Some e \<Rightarrow> (Returns (Some e), [StdinPipe, StdoutPipe], [], t)
           | None \<Rightarrow>
               (case StderrPipe_result env of
                  Some e \<Rightarrow> (Returns (Some e), [StdinPipe, StdoutPipe, StderrPipe], [], t)
                | None \<Rightarrow>
                    (let (r, as, relay, t') = relay_and_wait env t
                     in (r, [StdinPipe, StdoutPipe, StderrPipe] @ as, relay, t')))))"

text \<open>Lines 168 to 183: the terminal size, the terminal type, the PTY and the watcher.\<close>

definition request_pty ::
  "session_env \<Rightarrow> SSHTerminal \<Rightarrow> outcome \<times> action list \<times> action list \<times> SSHTerminal" where
  "request_pty env t =
     (case GetSize_result env of
        Inl e \<Rightarrow> (Returns (Some e), [GetSize], [], t)
      | Inr (width, height) \<Rightarrow>
          (let termType = (if TERM_value env = [] then ''xterm-256color'' else TERM_value env);
               asked = [GetSize, Getenv ''TERM'', RequestPty termType height width]
           in case RequestPty_result env of
                Some e \<Rightarrow> (Returns (Some e), asked, [], t)
              | None \<Rightarrow>
                  (let (waiting, st, watcher) =
                         updateTerminalSize (watcher_GetSize env) (notifications env);
                       (r, as, relay, t') = open_streams env t
                   in (r, asked @ Go SizeWatcher False # as, watcher @ relay, t'))))"

text \<open>
  \<open>interactiveSession\<close>.  The deferred calls run when the function returns, the last
  one registered first: \<open>term.Restore\<close> (registered at line 166, once \<open>term.MakeRaw\<close>
  has succeeded), then the exit message (registered at line 153).  A run that blocks
  for ever runs none of them.
\<close>

definition interactiveSession ::
  "session_env \<Rightarrow> SSHTerminal \<Rightarrow> outcome \<times> action list \<times> SSHTerminal" where
  "interactiveSession env t =
     (case MakeRaw_result env of
        Inl e \<Rightarrow>
          (Returns (Some e), [MakeRaw, Println (exit_message t (now_RFC822 env))], t)
      | Inr state \<Rightarrow>
          (let (r, as, bs, t') = request_pty env t
           in case r of
                Blocks \<Rightarrow> (Blocks, MakeRaw # as @ bs, t')
              | Returns err \<Rightarrow>
                  (Returns err,
                   MakeRaw # as @ bs @
                   [Restore state, Println (exit_message t' (now_RFC822 env))],
                   t')))"

section \<open>The transport connector\<close>

text \<open>
  What the operating system and the network answer to \<open>connectToServer\<close>:
  \<open>user.Current\<close> (the home directory of the user of the process), \<open>os.ReadFile\<close>,
  \<open>ssh.ParsePrivateKey\<close>, \<open>ssh.Dial\<close>, \<open>client.NewSession\<close>, and the session.
\<close>

record connect_env =
  Current_HomeDir :: "error + string"
  ReadFile_result :: "string \<Rightarrow> error + string"
  ParsePrivateKey_result :: "string \<Rightarrow> error + signer"
  Dial_result :: "string \<Rightarrow> ClientConfig \<Rightarrow> error option"
  NewSession_result :: "error option"
  session :: session_env

text \<open>\<open>getHomeDir\<close>.\<close>

definition getHomeDir :: "connect_env \<Rightarrow> error + string" where
  "getHomeDir env = (case Current_HomeDir env of Inl err \<Rightarrow> Inl err | Inr homeDir \<Rightarrow> Inr homeDir)"

text \<open>Lines 75 to 92: the authentication methods.\<close>

definition add_auth ::
  "connect_env \<Rightarrow> Server \<Rightarrow> ClientConfig \<Rightarrow> (error + ClientConfig) \<times> action list" where
  "add_auth env server sshConfig =
     (if UseKey server then
        (case getHomeDir env of
           Inl err \<Rightarrow> (Inl (HomeDirError err), [UserCurrent])
         | Inr homeDir \<Rightarrow>
             (let path = keyPath (PrivateKey server) homeDir
              in case ReadFile_result env path of
                   Inl err \<Rightarrow> (Inl (KeyReadError path err), [UserCurrent, ReadFile path])
                 | Inr key \<Rightarrow>
                     (case ParsePrivateKey_result env key of
                        Inl err \<Rightarrow>
                          (Inl (KeyParseError path err),
                           [UserCurrent, ReadFile path, ParsePrivateKey key])
                      | Inr privateKey \<Rightarrow>
                          (Inr (sshConfig\<lparr>Auth := Auth sshConfig @ [PublicKeys privateKey]\<rparr>),
                           [UserCurrent, ReadFile path, ParsePrivateKey key]))))
      else if Password server \<noteq> [] then
        (Inr (sshConfig\<lparr>Auth := Auth sshConfig @ [PasswordAuth (Password server)]\<rparr>), [])
      else (Inr sshConfig, []))"

text \<open>
  Lines 95 to 110: dial, open the session, run it.  The deferred \<open>session.Close\<close> and
  \<open>client.Close\<close> run when the function returns.
\<close>

definition dial_and_run ::
  "connect_env \<Rightarrow> Server \<Rightarrow> ClientConfig \<Rightarrow> outcome \<times> action list" where
  "dial_and_run env server sshConfig =
     (let address = Address server @ '':'' @ int_dec (Port server)
      in case Dial_result env address sshConfig of
           Some err \<Rightarrow> (Returns (Some (DialError address err)), [Dial address sshConfig])
         | None \<Rightarrow>
             (case NewSession_result env of
                Some err \<Rightarrow>
                  (Returns (Some (SessionError address err)),
                   [Dial address sshConfig, NewSession, ClientClose])
              | None \<Rightarrow>
                  (let (r, as, t) = interactiveSession (session env) \<lparr>exitMsg = []\<rparr>
                   in case r of
                        Blocks \<Rightarrow> (Blocks, [Dial address sshConfig, NewSession] @ as)
                      | Returns err \<Rightarrow>
                          (Returns err,
                           [Dial address sshConfig, NewSession] @ as @
                           [SessionClose, ClientClose]))))"

definition connectToServer :: "connect_env \<Rightarrow> Server \<Rightarrow> outcome \<times> action list" where
  "connectToServer env server =
     (let sshConfig =
            \<lparr>ConfigUser = User server, Auth = [], HostKeyCallback = InsecureIgnoreHostKey\<rparr>
      in case add_auth env server sshConfig of
           (Inl err, as) \<Rightarrow> (Returns (Some err), as)
         | (Inr sshConfig', as) \<Rightarrow>
             (let (r, bs) = dial_and_run env server sshConfig' in (r, as @ bs)))"

section \<open>The command line\<close>

text \<open>
  What \<open>main\<close> is given: what \<open>os.Open\<close> returns for the file named by \<open>-config\<close> (its
  bytes, or an error) and what the JSON decoder makes of such bytes, the flags
  \<open>-alias\<close> and \<open>-ip\<close> as \<open>flag.Parse\<close> has read them (a command line that
  \<open>flag.Parse\<close> rejects ends the process inside the library, before the lines of
  \<open>main\<close> modelled here), the word that \<open>fmt.Scanln\<close> stores in \<open>choice\<close>, and the world
  of \<open>connectToServer\<close>.  The functions \<open>strings.EqualFold\<close>, \<open>strings.ToLower\<close> and
  \<open>strings.TrimSpace\<close> belong to Go's library and are parameters.
\<close>

record main_env =
  Open_result :: "error + string"
  Decode_result :: "string \<Rightarrow> error + Config"
  aliasFlag :: string
  ipFlag :: string
  choice_read :: string
  EqualFold :: "string \<Rightarrow> string \<Rightarrow> bool"
  ToLower :: "string \<Rightarrow> string"
  TrimSpace :: "string \<Rightarrow> string"
  connect :: connect_env

text \<open>
  How the process ends.  The Go runtime exits with status 0 when \<open>main\<close> returns and
  with status 2 on a panic that nothing recovers; the program itself never calls
  \<open>os.Exit\<close>.  A process that hangs has no exit status.
\<close>

datatype main_outcome = MainReturns | MainPanics string | MainBlocks

fun exit_status :: "main_outcome \<Rightarrow> int option" where
  "exit_status MainReturns = Some 0"
| "exit_status (MainPanics m) = Some 2"
| "exit_status MainBlocks = None"

text \<open>\<open>loadConfig\<close>: open the file, decode it, return the first error met.\<close>

definition loadConfig :: "main_env \<Rightarrow> error + Config" where
  "loadConfig env =
     (case Open_result env of
        Inl err \<Rightarrow> Inl err
      | Inr file \<Rightarrow>
          (case Decode_result env file of
             Inl err \<Rightarrow> Inl err
           | Inr config \<Rightarrow> Inr config))"

text \<open>Lines 259 to 274: the two loops over the servers, each left at the first match.\<close>

definition select_by_flags :: "main_env \<Rightarrow> Config \<Rightarrow> Server option" where
  "select_by_flags env config =
     (if aliasFlag env \<noteq> [] then
        find (\<lambda>server. EqualFold env (Alias server) (aliasFlag env)) (Servers config)
      else if ipFlag env \<noteq> [] then
        find (\<lambda>server. Address server = ipFlag env) (Servers config)
      else None)"

text \<open>Lines 278 to 290: the numbered list, the line read, the loop over the aliases.\<close>

definition menu_line :: "nat \<times> Server \<Rightarrow> action" where
  "menu_line p =
     (case p of (i, server) \<Rightarrow>
        Printf (nat_dec (i + 1) @ ''. '' @ Alias server @ '' ('' @ Address server @ '':'' @
                int_dec (Port server) @ '')'' @ [CHR 0x0A]))"

definition select_by_choice :: "main_env \<Rightarrow> Config \<Rightarrow> Server option \<times> action list" where
  "select_by_choice env config =
     (let choice = TrimSpace env (ToLower env (choice_read env))
      in (find (\<lambda>server. ToLower env (Alias server) = choice) (Servers config),
          Println ''Please select a server to connect to:'' #
          map menu_line (enumerate 0 (Servers config)) @ [Scanln]))"

text \<open>Line 295: \<open>config.Servers[0]\<close> panics on an empty slice.\<close>

definition first_server :: "Config \<Rightarrow> string + Server" where
  "first_server config =
     (case Servers config of
        [] \<Rightarrow> Inl ''runtime error: index out of range [0] with length 0''
      | server # rest \<Rightarrow> Inr server)"

definition connecting_line :: "Server \<Rightarrow> action" where
  "connecting_line server =
     Printf (''Connecting to '' @ Alias server @ '' ('' @ Address server @ '':'' @
             int_dec (Port server) @ '')...'' @ [CHR 0x0A])"

text \<open>
  Lines 256 to 296: the server chosen by the flags, else by the line read, else the
  first one of the list.
\<close>

definition selectServer :: "main_env \<Rightarrow> Config \<Rightarrow> (string + Server) \<times> action list" where
  "selectServer env config =
     (case select_by_flags env config of
        Some server \<Rightarrow> (Inr server, [])
      | None \<Rightarrow>
          (case select_by_choice env config of
             (Some server, as) \<Rightarrow> (Inr server, as)
           | (None, as) \<Rightarrow> (first_server config, as)))"

text \<open>Lines 299 to 303: the connection, and the line printed when it returns an error.\<close>

definition connect_and_report :: "main_env \<Rightarrow> Server \<Rightarrow> main_outcome \<times> action list" where
  "connect_and_report env server =
     (case connectToServer (connect env) server of
        (Blocks, bs) \<Rightarrow> (MainBlocks, connecting_line server # bs)
      | (Returns None, bs) \<Rightarrow> (MainReturns, connecting_line server # bs)
      | (Returns (Some err), bs) \<Rightarrow>
          (MainReturns, connecting_line server # bs @ [Println (''Error: '' @ Error_msg err)]))"

definition main :: "main_env \<Rightarrow> main_outcome \<times> action list" where
  "main env =
     (case loadConfig env of
        Inl err \<Rightarrow> (MainReturns, [Println (''Error loading config: '' @ Error_msg err)])
      | Inr config \<Rightarrow>
          (case selectServer env config of
             (Inl panic, as) \<Rightarrow> (MainPanics panic, as)
           | (Inr server, as) \<Rightarrow>
               (let (r, bs) = connect_and_report env server in (r, as @ bs))))"

section \<open>Reading a run\<close>

text \<open>How often the terminal is restored in a run, and the lines a run prints.\<close>

fun is_Restore :: "action \<Rightarrow> bool" where
  "is_Restore (Restore s) = True"
| "is_Restore a = False"

fun is_Println :: "action \<Rightarrow> bool" where
  "is_Println (Println s) = True"
| "is_Println a = False"

fun is_Dial :: "action \<Rightarrow> bool" where
  "is_Dial (Dial a c) = True"
| "is_Dial a = False"

text \<open>The goroutines that a run starts with \<open>defer wg.Done()\<close>: those \<open>wg.Wait\<close> waits for.\<close>

fun awaited :: "action list \<Rightarrow> task list" where
  "awaited [] = []"
| "awaited (Go t d # as) = (if d then t # awaited as else awaited as)"
| "awaited (a # as) = awaited as"

text \<open>The actions that only the size watcher and the input relay do.\<close>

fun by_goroutine :: "action \<Rightarrow> bool" where
  "by_goroutine (WindowChange h w) = True"
| "by_goroutine (StdinWrite d) = True"
| "by_goroutine (Println s) = True"
| "by_goroutine (Printf s) = True"
| "by_goroutine a = False"

text \<open>
  \<open>before a b as\<close>: the run \<open>as\<close> does \<open>b\<close>, and it has done \<open>a\<close> when it does \<open>b\<close> for the
  first time.
\<close>

definition before :: "action \<Rightarrow> action \<Rightarrow> action list \<Rightarrow> bool" where
  "before a b as = (b \<in> set as \<and> a \<in> set (takeWhile (\<lambda>x. x \<noteq> b) as))"

section \<open>Sample worlds\<close>

text \<open>
  The target of the specification's scenario, a session in which every call
  succeeds on an 80 by 24 terminal, and a host that accepts the key.
\<close>

definition db1 :: Server where
  "db1 = \<lparr>Alias = ''db1'', Address = ''10.0.0.5'', Port = 22, User = ''ops'',
          Password = [], PrivateKey = ''~/.ssh/id_ed25519'', UseKey = True\<rparr>"

definition calm_session :: session_env where
  "calm_session =
     \<lparr>MakeRaw_result = Inr 7, GetSize_result = Inr (80, 24), TERM_value = [],
      RequestPty_result = None, StdinPipe_result = None, StdoutPipe_result = None,
      StderrPipe_result = None, Shell_result = None, stderr_ends = True,
      stdout_ends = True, remote_exits = True, Wait_result = None,
      watcher_GetSize = (80, 24, None), notifications = [], stdin_events = [],
      now_RFC822 = ''02 Jan 06 15:04 MST''\<rparr>"

definition open_host :: connect_env where
  "open_host =
     \<lparr>Current_HomeDir = Inr ''/home/ann'',
      ReadFile_result =
        (\<lambda>path. if path = ''/home/ann/.ssh/id_ed25519'' then Inr ''PEM''
                 else Inl (Cause ''no such file or directory'')),
      ParsePrivateKey_result =
        (\<lambda>key. if key = ''PEM'' then Inr ''signer'' else Inl (Cause ''ssh: no key found'')),
      Dial_result = (\<lambda>address sshConfig. None),
      NewSession_result = None,
      session = calm_session\<rparr>"

definition ascii_lower :: "string \<Rightarrow> string" where
  "ascii_lower s =
     map (\<lambda>c. if (65::nat) \<le> of_char c \<and> of_char c \<le> (90::nat)
              then char_of (of_char c + (32::nat)) else c) s"

definition ascii_trim :: "string \<Rightarrow> string" where
  "ascii_trim s =
     (let blank = (\<lambda>c. c \<in> set [CHR '' '', CHR 0x09, CHR 0x0A, CHR 0x0D])
      in rev (dropWhile blank (rev (dropWhile blank s))))"

definition plain_run :: main_env where
  "plain_run =
     \<lparr>Open_result = Inr ''inventory'',
      Decode_result = (\<lambda>file. Inr \<lparr>Servers = [db1]\<rparr>), aliasFlag = ''DB1'', ipFlag = [],
      choice_read = [],
      EqualFold = (\<lambda>a b. ascii_lower a = ascii_lower b),
      ToLower = ascii_lower, TrimSpace = ascii_trim,
      connect = open_host\<rparr>"

text \<open>Rounds of the input relay: two typed bytes, end of the local input, a broken pipe.\<close>

definition typed_ls :: stdin_event where
  "typed_ls = \<lparr>read_data = ''ls'', read_err = None, write_err = None\<rparr>"

definition stdin_eof :: stdin_event where
  "stdin_eof = \<lparr>read_data = [], read_err = Some (Cause ''EOF''), write_err = None\<rparr>"

definition broken_pipe :: stdin_event where
  "broken_pipe = \<lparr>read_data = ''q'', read_err = None, write_err = Some (Cause ''EOF'')\<rparr>"

text \<open>Runs of the program: no inventory file, a host that refuses, an empty inventory.\<close>

definition no_config :: main_env where
  "no_config =
     plain_run\<lparr>Open_result := Inl (Cause ''open config.json: no such file or directory'')\<rparr>"

definition refused :: main_env where
  "refused =
     plain_run\<lparr>connect := open_host\<lparr>Dial_result :=
       (\<lambda>address sshConfig. Some (Cause ''dial tcp 10.0.0.5:22: connect: connection refused''))\<rparr>\<rparr>"

definition empty_inventory :: main_env where
  "empty_inventory = plain_run\<lparr>Decode_result := (\<lambda>file. Inr \<lparr>Servers = []\<rparr>)\<rparr>"

text \<open>
  A session in which the window is resized once and the write of the second chunk of
  input fails; a process whose user is unknown and whose files cannot be read; a key
  file that holds no key; a target with a password and one with no credential.
\<close>

definition chatty_session :: session_env where
  "chatty_session =
     calm_session\<lparr>stdin_events := [typed_ls, broken_pipe],
                   notifications := [Sigwinch 120 40 None]\<rparr>"



definition with_password :: Server where
  "with_password = db1\<lparr>UseKey := False, Password := ''s3cret''\<rparr>"

definition with_nothing :: Server where
  "with_nothing = db1\<lparr>UseKey := False\<rparr>"

section \<open>Notions used in the statements\<close>


text \<open>
  A round of the input relay that ends without an error, and the writes of a list of
  such rounds.
\<close>

definition round_ok :: "stdin_event \<Rightarrow> bool" where
  "round_ok ev = (read_err ev = None \<and> (read_data ev = [] \<or> write_err ev = None))"

definition relayed :: "stdin_event list \<Rightarrow> action list" where
  "relayed evs = map StdinWrite (filter (\<lambda>d. d \<noteq> []) (map read_data evs))"

section \<open>The key path: results\<close>

lemma replace_first_absent: "c \<notin> set s \<Longrightarrow> replace_first c new s = s"
  by (induction s) auto

lemma keyPath_leading: "keyPath (CHR ''~'' # rest) homeDir = homeDir @ rest"
  by (simp add: keyPath_def)

lemma keyPath_without_marker:
  "CHR ''~'' \<notin> set privateKey \<Longrightarrow> keyPath privateKey homeDir = privateKey"
  by (simp add: keyPath_def replace_first_absent)

lemma keyPath_first_marker:
  "CHR ''~'' \<notin> set pre \<Longrightarrow> keyPath (pre @ CHR ''~'' # rest) homeDir = pre @ homeDir @ rest"
  unfolding keyPath_def by (induction pre) auto

text \<open>
  Claim C5.  A home-directory marker is to be resolved only where it leads the path.
  The code replaces the first \<open>~\<close> wherever it stands: for the key path
  \<open>/keys/id~rsa\<close> and the home directory \<open>/home/ann\<close> of the user of the process, the
  file that \<open>connectToServer\<close> reads is \<open>/keys/id/home/annrsa\<close>.
\<close>

theorem keyPath_inner_marker:
  "keyPath ''/keys/id~rsa'' ''/home/ann'' = ''/keys/id/home/annrsa'' \<and>
   ReadFile ''/keys/id/home/annrsa'' \<in>
     set (snd (connectToServer open_host (db1\<lparr>PrivateKey := ''/keys/id~rsa''\<rparr>)))"
  by (simp add: keyPath_def connectToServer_def add_auth_def getHomeDir_def open_host_def
      db1_def Let_def)

section \<open>The resize watcher: results\<close>

lemma on_sigwinch_same:
  "h = termHeight st \<Longrightarrow> w = termWidth st \<Longrightarrow> on_sigwinch st w h err = (st, [])"
  by (simp add: on_sigwinch_def)

lemma on_sigwinch_changed:
  "h \<noteq> termHeight st \<or> w \<noteq> termWidth st \<Longrightarrow>
   resize_requests (snd (on_sigwinch st w h err)) = [WindowChange h w]"
  by (auto simp: on_sigwinch_def resize_requests_def split: option.splits)

lemma on_sigwinch_remembers:
  "h \<noteq> termHeight st \<or> w \<noteq> termWidth st \<Longrightarrow>
   on_sigwinch (fst (on_sigwinch st w h None)) w h err' = (fst (on_sigwinch st w h None), [])"
  by (auto simp: on_sigwinch_def)

lemma on_sigwinch_forgets:
  "h \<noteq> termHeight st \<or> w \<noteq> termWidth st \<Longrightarrow> fst (on_sigwinch st w h (Some e)) = st"
  by (auto simp: on_sigwinch_def)

lemma resize_scenario:
  "resize_requests (snd (snd (updateTerminalSize (80, 24, None)
     [Sigwinch 120 40 None, Sigwinch 120 40 None]))) = [WindowChange 40 120]"
  by (simp add: updateTerminalSize_def on_sigwinch_def resize_requests_def)

text \<open>
  Claim C6.  A duplicate notification after a change is to send no resize request.
  When \<open>term.GetSize\<close> returns an error with its size, the watcher sends the request
  and then skips the update of the last-known size, because the error it tests is the
  one of \<open>term.GetSize\<close> and not the one of \<open>WindowChange\<close>: on an 80 by 24 terminal,
  two notifications that both re-read 0 by 0 with an error send two requests.
\<close>

theorem resize_repeated_after_failed_read:
  "resize_requests (snd (snd (updateTerminalSize (80, 24, None)
     [Sigwinch 0 0 (Some (Cause ''EIO'')), Sigwinch 0 0 (Some (Cause ''EIO''))]))) =
   [WindowChange 0 0, WindowChange 0 0]"
  by (simp add: updateTerminalSize_def on_sigwinch_def resize_requests_def)

section \<open>The input relay: results\<close>

lemma inputRelay_prefix:
  "list_all round_ok pre \<Longrightarrow>
   inputRelay (pre @ rest) t =
     (case inputRelay rest t of (running, t', as) \<Rightarrow> (running, t', relayed pre @ as))"
  by (induction pre) (auto simp: round_ok_def relayed_def split: prod.splits)

lemma inputRelay_never_closes:
  "SessionClose \<notin> set (snd (snd (inputRelay evs t))) \<and>
   ClientClose \<notin> set (snd (snd (inputRelay evs t)))"
  by (induction evs) (auto split: option.splits prod.splits)

text \<open>
  Claim C2.  An error of the read from the local input is to be recorded in \<open>exitMsg\<close>,
  as an error of the write to the session is.  The code prints it and returns without
  the assignment: after two typed bytes, the end of the local input stops the relay
  and leaves \<open>exitMsg\<close> empty, and the session that the relay belongs to ends with an
  empty \<open>exitMsg\<close>, so with the message that the remote side closed the connection.
\<close>

theorem read_error_not_recorded:
  "read_err stdin_eof = Some (Cause ''EOF'') \<and>
   inputRelay [typed_ls, stdin_eof] \<lparr>exitMsg = []\<rparr> =
     (False, \<lparr>exitMsg = []\<rparr>, [StdinWrite ''ls'', Println ''EOF'']) \<and>
   exitMsg (fst (snd (inputRelay [typed_ls, stdin_eof] \<lparr>exitMsg = []\<rparr>))) \<noteq> ''EOF'' \<and>
   inputRelay [typed_ls, broken_pipe] \<lparr>exitMsg = []\<rparr> =
     (False, \<lparr>exitMsg = ''EOF''\<rparr>, [StdinWrite ''ls'', StdinWrite ''q'', Println ''EOF'']) \<and>
   snd (snd (interactiveSession (calm_session\<lparr>stdin_events := [typed_ls, stdin_eof]\<rparr>)
                \<lparr>exitMsg = []\<rparr>)) = \<lparr>exitMsg = []\<rparr> \<and>
   last (fst (snd (interactiveSession (calm_session\<lparr>stdin_events := [typed_ls, stdin_eof]\<rparr>)
                     \<lparr>exitMsg = []\<rparr>))) =
     Println ''the connection was closed on the remote side on  02 Jan 06 15:04 MST''"
  by code_simp

text \<open>
  What the relay does on its two errors, after rounds without an error: a read error
  is printed, leaves \<open>exitMsg\<close> as it was and stops the relay; a write error is printed,
  is recorded in \<open>exitMsg\<close> and stops the relay; the relay never closes the session.
\<close>

lemma inputRelay_errors:
  assumes "list_all round_ok pre"
  shows "(read_err ev = Some e \<longrightarrow>
            inputRelay (pre @ ev # post) t = (False, t, relayed pre @ [Println (Error_msg e)])) \<and>
         (read_err ev = None \<and> read_data ev \<noteq> [] \<and> write_err ev = Some e \<longrightarrow>
            inputRelay (pre @ ev # post) t =
              (False, t\<lparr>exitMsg := Error_msg e\<rparr>,
               relayed pre @ [StdinWrite (read_data ev), Println (Error_msg e)])) \<and>
         SessionClose \<notin> set (snd (snd (inputRelay (pre @ ev # post) t)))"
  using assms inputRelay_never_closes[of "pre @ ev # post" t]
  by (simp add: inputRelay_prefix)

lemma inputRelay_errors_example:
  "list_all round_ok [typed_ls] \<and>
   inputRelay ([typed_ls] @ stdin_eof # [typed_ls]) \<lparr>exitMsg = []\<rparr> =
     (False, \<lparr>exitMsg = []\<rparr>, [StdinWrite ''ls'', Println ''EOF'']) \<and>
   inputRelay ([typed_ls] @ broken_pipe # [typed_ls]) \<lparr>exitMsg = []\<rparr> =
     (False, \<lparr>exitMsg = ''EOF''\<rparr>, [StdinWrite ''ls'', StdinWrite ''q'', Println ''EOF''])"
proof -
  have a: "list_all round_ok [typed_ls]"
    by (simp add: round_ok_def typed_ls_def)
  have r: "relayed [typed_ls] = [StdinWrite ''ls'']"
    by (simp add: relayed_def typed_ls_def)
  show ?thesis
    using a r
      inputRelay_errors[OF a, of stdin_eof "Cause ''EOF''" "[typed_ls]" "\<lparr>exitMsg = []\<rparr>"]
      inputRelay_errors[OF a, of broken_pipe "Cause ''EOF''" "[typed_ls]" "\<lparr>exitMsg = []\<rparr>"]
    by (simp add: stdin_eof_def broken_pipe_def)
qed

section \<open>The terminal controller: results\<close>

lemma inputRelay_by_goroutine: "list_all by_goroutine (snd (snd (inputRelay evs t)))"
  by (induction evs) (auto split: option.splits prod.splits)

lemma on_sigwinch_by_goroutine: "list_all by_goroutine (snd (on_sigwinch st w h err))"
  by (simp add: on_sigwinch_def split: option.splits)

lemma watcher_loop_by_goroutine: "list_all by_goroutine (snd (snd (watcher_loop st ns)))"
proof (induction ns arbitrary: st)
  case Nil
  then show ?case by simp
next
  case (Cons n ns)
  show ?case
  proof (cases n)
    case NilSignal
    then show ?thesis by simp
  next
    case (Sigwinch w h err)
    then show ?thesis
      using Cons[of "fst (on_sigwinch st w h err)"] on_sigwinch_by_goroutine[of st w h err]
      by (simp add: case_prod_unfold Let_def)
  qed
qed

lemma updateTerminalSize_by_goroutine:
  "list_all by_goroutine (snd (snd (updateTerminalSize first ns)))"
  using watcher_loop_by_goroutine
  by (simp add: updateTerminalSize_def case_prod_unfold Let_def split: option.splits)

lemma by_goroutine_notin: "list_all by_goroutine bs \<Longrightarrow> \<not> by_goroutine a \<Longrightarrow> a \<notin> set bs"
  by (auto simp: list_all_iff)

lemma by_goroutine_no_Restore: "list_all by_goroutine bs \<Longrightarrow> filter is_Restore bs = []"
proof (induction bs)
  case (Cons b bs)
  then show ?case by (cases b) simp_all
qed simp

lemma by_goroutine_no_Dial: "list_all by_goroutine bs \<Longrightarrow> filter is_Dial bs = []"
proof (induction bs)
  case (Cons b bs)
  then show ?case by (cases b) simp_all
qed simp

lemma by_goroutine_not_awaited: "list_all by_goroutine bs \<Longrightarrow> awaited bs = []"
proof (induction bs)
  case (Cons b bs)
  then show ?case by (cases b) simp_all
qed simp

lemma awaited_append: "awaited (as @ bs) = awaited as @ awaited bs"
  by (induction as rule: awaited.induct) simp_all

text \<open>The parts of a session: the calls of the controller, and the goroutines beside it.\<close>

lemma relay_and_wait_parts:
  "filter is_Restore (fst (snd (relay_and_wait env t))) = [] \<and>
   filter is_Println (fst (snd (relay_and_wait env t))) = [] \<and>
   filter is_Dial (fst (snd (relay_and_wait env t))) = [] \<and>
   Go StdinRelay False \<in> set (fst (snd (relay_and_wait env t))) \<and>
   Go SizeWatcher False \<notin> set (fst (snd (relay_and_wait env t))) \<and>
   fst (snd (snd (relay_and_wait env t))) = snd (snd (inputRelay (stdin_events env) t)) \<and>
   snd (snd (snd (relay_and_wait env t))) = fst (snd (inputRelay (stdin_events env) t))"
  by (simp add: relay_and_wait_def Let_def case_prod_unfold split: option.splits)

lemma open_streams_parts:
  "filter is_Restore (fst (snd (open_streams env t))) = [] \<and>
   filter is_Println (fst (snd (open_streams env t))) = [] \<and>
   filter is_Dial (fst (snd (open_streams env t))) = [] \<and>
   Go SizeWatcher False \<notin> set (fst (snd (open_streams env t))) \<and>
   fst (snd (snd (open_streams env t))) =
     (if Go StdinRelay False \<in> set (fst (snd (open_streams env t)))
      then snd (snd (inputRelay (stdin_events env) t)) else []) \<and>
   snd (snd (snd (open_streams env t))) =
     (if Go StdinRelay False \<in> set (fst (snd (open_streams env t)))
      then fst (snd (inputRelay (stdin_events env) t)) else t)"
  using relay_and_wait_parts[of env t]
  by (simp add: open_streams_def Let_def case_prod_unfold split: option.splits)

lemma request_pty_parts:
  "filter is_Restore (fst (snd (request_pty env t))) = [] \<and>
   filter is_Println (fst (snd (request_pty env t))) = [] \<and>
   filter is_Dial (fst (snd (request_pty env t))) = [] \<and>
   fst (snd (snd (request_pty env t))) =
     (if Go SizeWatcher False \<in> set (fst (snd (request_pty env t)))
      then snd (snd (updateTerminalSize (watcher_GetSize env) (notifications env))) else []) @
     (if Go StdinRelay False \<in> set (fst (snd (request_pty env t)))
      then snd (snd (inputRelay (stdin_events env) t)) else []) \<and>
   snd (snd (snd (request_pty env t))) =
     (if Go StdinRelay False \<in> set (fst (snd (request_pty env t)))
      then fst (snd (inputRelay (stdin_events env) t)) else t)"
  using open_streams_parts[of env t]
  by (simp add: request_pty_def Let_def case_prod_unfold split: sum.splits option.splits)

lemma request_pty_by_goroutine: "list_all by_goroutine (fst (snd (snd (request_pty env t))))"
  using inputRelay_by_goroutine[of "stdin_events env" t]
    updateTerminalSize_by_goroutine[of "watcher_GetSize env" "notifications env"]
  by (simp add: request_pty_parts)

lemma started_in_session:
  "Go g d \<in> set (fst (snd (interactiveSession env t))) \<longleftrightarrow>
   (\<exists>state. MakeRaw_result env = Inr state) \<and> Go g d \<in> set (fst (snd (request_pty env t)))"
  using by_goroutine_notin[OF request_pty_by_goroutine[of env t], of "Go g d"]
  by (auto simp: interactiveSession_def Let_def case_prod_unfold split: sum.splits outcome.splits)

lemma blocked_session_not_restored:
  "fst (interactiveSession env t) = Blocks \<Longrightarrow>
   filter is_Restore (fst (snd (interactiveSession env t))) = []"
  using request_pty_parts[of env t] by_goroutine_no_Restore[OF request_pty_by_goroutine[of env t]]
  by (simp add: interactiveSession_def Let_def case_prod_unfold split: sum.splits outcome.splits)

text \<open>
  Claim C7.  On every path on which \<open>interactiveSession\<close> returns, the terminal is
  restored exactly once, with the snapshot that \<open>term.MakeRaw\<close> returned, if
  \<open>term.MakeRaw\<close> succeeded; if it failed, there is no snapshot and no restoration.
\<close>

theorem restore_exactly_once:
  assumes "fst (interactiveSession env t) = Returns err"
  shows "filter is_Restore (fst (snd (interactiveSession env t))) =
           (case MakeRaw_result env of Inl e \<Rightarrow> [] | Inr state \<Rightarrow> [Restore state])"
  using assms request_pty_parts[of env t]
    by_goroutine_no_Restore[OF request_pty_by_goroutine[of env t]]
  by (simp add: interactiveSession_def Let_def case_prod_unfold split: sum.splits outcome.splits)


lemmas session_defs =
  interactiveSession_def request_pty_def open_streams_def relay_and_wait_def
  updateTerminalSize_def exit_message_def calm_session_def Let_def

theorem restore_exactly_once_witness:
  "fst (interactiveSession calm_session \<lparr>exitMsg = []\<rparr>) = Returns None \<and>
   filter is_Restore (fst (snd (interactiveSession calm_session \<lparr>exitMsg = []\<rparr>))) =
     [Restore 7] \<and>
   fst (interactiveSession (calm_session\<lparr>MakeRaw_result := Inl (Cause ''inappropriate ioctl for device'')\<rparr>) \<lparr>exitMsg = []\<rparr>) =
     Returns (Some (Cause ''inappropriate ioctl for device'')) \<and>
   filter is_Restore (fst (snd (interactiveSession
     (calm_session\<lparr>MakeRaw_result := Inl (Cause ''inappropriate ioctl for device'')\<rparr>) \<lparr>exitMsg = []\<rparr>))) = []"
proof -
  have a: "fst (interactiveSession calm_session \<lparr>exitMsg = []\<rparr>) = Returns None"
    by (simp add: session_defs)
  have b: "fst (interactiveSession (calm_session\<lparr>MakeRaw_result := Inl (Cause ''inappropriate ioctl for device'')\<rparr>) \<lparr>exitMsg = []\<rparr>) =
     Returns (Some (Cause ''inappropriate ioctl for device''))"
    by (simp add: session_defs)
  show ?thesis
    using a b restore_exactly_once[OF a] restore_exactly_once[OF b]
    by (simp add: calm_session_def)
qed

text \<open>
  Claim C8.  When \<open>interactiveSession\<close> returns, the last action of the run is the one
  line of the deferred function: the recorded \<open>exitMsg\<close> if there is one, otherwise the
  message that the connection was closed on the remote side, which ends with the
  time.  The \<open>exitMsg\<close> is the one the input relay has left, if the relay was started.
  Every other line that the run prints is an error printed before by the size watcher
  or by the input relay.
\<close>

theorem one_final_message:
  assumes "fst (interactiveSession env t) = Returns err"
  shows "(\<exists>front. fst (snd (interactiveSession env t)) =
            front @
            [Println (if exitMsg (snd (snd (interactiveSession env t))) = []
                      then ''the connection was closed on the remote side on '' @ '' '' @
                           now_RFC822 env
                      else exitMsg (snd (snd (interactiveSession env t))))]) \<and>
         filter is_Println (fst (snd (interactiveSession env t))) =
           (if Go SizeWatcher False \<in> set (fst (snd (interactiveSession env t)))
            then filter is_Println
                   (snd (snd (updateTerminalSize (watcher_GetSize env) (notifications env))))
            else []) @
           (if Go StdinRelay False \<in> set (fst (snd (interactiveSession env t)))
            then filter is_Println (snd (snd (inputRelay (stdin_events env) t)))
            else []) @
           [Println (exit_message (snd (snd (interactiveSession env t))) (now_RFC822 env))] \<and>
         snd (snd (interactiveSession env t)) =
           (if Go StdinRelay False \<in> set (fst (snd (interactiveSession env t)))
            then fst (snd (inputRelay (stdin_events env) t)) else t)"
proof (cases "MakeRaw_result env")
  case (Inl e)
  then show ?thesis
    by (simp add: interactiveSession_def exit_message_def)
next
  case (Inr state)
  have g: "\<And>g d. Go g d \<in> set (fst (snd (interactiveSession env t))) \<longleftrightarrow>
                 Go g d \<in> set (fst (snd (request_pty env t)))"
    using Inr by (simp add: started_in_session)
  from assms Inr obtain
    r: "fst (request_pty env t) = Returns err" and
    tr: "fst (snd (interactiveSession env t)) =
           MakeRaw # fst (snd (request_pty env t)) @ fst (snd (snd (request_pty env t))) @
           [Restore state,
            Println (exit_message (snd (snd (snd (request_pty env t)))) (now_RFC822 env))]" and
    t': "snd (snd (interactiveSession env t)) = snd (snd (snd (request_pty env t)))"
    by (auto simp: interactiveSession_def Let_def case_prod_unfold split: outcome.splits)
  have last: "\<exists>front. fst (snd (interactiveSession env t)) =
            front @ [Println (exit_message (snd (snd (interactiveSession env t))) (now_RFC822 env))]"
    unfolding tr t'
    by (rule exI[of _ "MakeRaw # fst (snd (request_pty env t)) @
          fst (snd (snd (request_pty env t))) @ [Restore state]"]) simp
  have lines: "filter is_Println (fst (snd (interactiveSession env t))) =
           filter is_Println (fst (snd (snd (request_pty env t)))) @
           [Println (exit_message (snd (snd (interactiveSession env t))) (now_RFC822 env))]"
    unfolding tr t' using request_pty_parts[of env t] by simp
  have conc: "fst (snd (snd (request_pty env t))) =
     (if Go SizeWatcher False \<in> set (fst (snd (request_pty env t)))
      then snd (snd (updateTerminalSize (watcher_GetSize env) (notifications env))) else []) @
     (if Go StdinRelay False \<in> set (fst (snd (request_pty env t)))
      then snd (snd (inputRelay (stdin_events env) t)) else [])"
    using request_pty_parts[of env t] by blast
  have msg: "snd (snd (snd (request_pty env t))) =
     (if Go StdinRelay False \<in> set (fst (snd (request_pty env t)))
      then fst (snd (inputRelay (stdin_events env) t)) else t)"
    using request_pty_parts[of env t] by blast
  have c1: "\<exists>front. fst (snd (interactiveSession env t)) =
            front @
            [Println (if exitMsg (snd (snd (interactiveSession env t))) = []
                      then ''the connection was closed on the remote side on '' @ '' '' @
                           now_RFC822 env
                      else exitMsg (snd (snd (interactiveSession env t))))]"
    using last unfolding exit_message_def .
  have c2: "filter is_Println (fst (snd (interactiveSession env t))) =
           (if Go SizeWatcher False \<in> set (fst (snd (interactiveSession env t)))
            then filter is_Println
                   (snd (snd (updateTerminalSize (watcher_GetSize env) (notifications env))))
            else []) @
           (if Go StdinRelay False \<in> set (fst (snd (interactiveSession env t)))
            then filter is_Println (snd (snd (inputRelay (stdin_events env) t)))
            else []) @
           [Println (exit_message (snd (snd (interactiveSession env t))) (now_RFC822 env))]"
    unfolding lines g conc by simp
  have c3: "snd (snd (interactiveSession env t)) =
           (if Go StdinRelay False \<in> set (fst (snd (interactiveSession env t)))
            then fst (snd (inputRelay (stdin_events env) t)) else t)"
    unfolding t' g by (rule msg)
  from c1 c2 c3 show ?thesis by blast
qed

theorem one_final_message_witness:
  "fst (interactiveSession calm_session \<lparr>exitMsg = []\<rparr>) = Returns None \<and>
   filter is_Println (fst (snd (interactiveSession calm_session \<lparr>exitMsg = []\<rparr>))) =
     [Println ''the connection was closed on the remote side on  02 Jan 06 15:04 MST''] \<and>
   fst (interactiveSession chatty_session \<lparr>exitMsg = []\<rparr>) = Returns None \<and>
   snd (snd (interactiveSession chatty_session \<lparr>exitMsg = []\<rparr>)) = \<lparr>exitMsg = ''EOF''\<rparr> \<and>
   filter is_Println (fst (snd (interactiveSession chatty_session \<lparr>exitMsg = []\<rparr>))) =
     [Println ''EOF'', Println ''EOF'']"
proof -
  have a: "fst (interactiveSession calm_session \<lparr>exitMsg = []\<rparr>) = Returns None"
    by (simp add: session_defs)
  have b: "fst (interactiveSession chatty_session \<lparr>exitMsg = []\<rparr>) = Returns None"
    by code_simp
  have c: "Go StdinRelay False \<in> set (fst (snd (interactiveSession calm_session \<lparr>exitMsg = []\<rparr>)))"
    "Go SizeWatcher False \<in> set (fst (snd (interactiveSession calm_session \<lparr>exitMsg = []\<rparr>)))"
    "Go StdinRelay False \<in> set (fst (snd (interactiveSession chatty_session \<lparr>exitMsg = []\<rparr>)))"
    "Go SizeWatcher False \<in> set (fst (snd (interactiveSession chatty_session \<lparr>exitMsg = []\<rparr>)))"
    by code_simp+
  have d: "inputRelay (stdin_events calm_session) \<lparr>exitMsg = []\<rparr> = (True, \<lparr>exitMsg = []\<rparr>, [])"
    "inputRelay (stdin_events chatty_session) \<lparr>exitMsg = []\<rparr> =
       (False, \<lparr>exitMsg = ''EOF''\<rparr>, [StdinWrite ''ls'', StdinWrite ''q'', Println ''EOF''])"
    by code_simp+
  have e: "updateTerminalSize (watcher_GetSize calm_session) (notifications calm_session) =
             (True, \<lparr>termWidth = 80, termHeight = 24\<rparr>, [])"
    "updateTerminalSize (watcher_GetSize chatty_session) (notifications chatty_session) =
             (True, \<lparr>termWidth = 120, termHeight = 40\<rparr>, [WindowChange 40 120])"
    by code_simp+
  have f: "now_RFC822 calm_session = ''02 Jan 06 15:04 MST''"
    by (simp add: calm_session_def)
  show ?thesis
    using a b one_final_message[OF a] one_final_message[OF b]
    by (simp add: c d e f exit_message_def)
qed


lemma setup_trace:
  assumes "MakeRaw_result env = Inr state" and "GetSize_result env = Inr (w, h)"
    and "RequestPty_result env = None" and "StdinPipe_result env = None"
    and "StdoutPipe_result env = None" and "StderrPipe_result env = None"
    and "Shell_result env = None"
  shows "\<exists>bs. list_all by_goroutine bs \<and>
          fst (snd (interactiveSession env t)) =
           [MakeRaw, GetSize, Getenv ''TERM'',
            RequestPty (if TERM_value env = [] then ''xterm-256color'' else TERM_value env) h w,
            Go SizeWatcher False, StdinPipe, StdoutPipe, StderrPipe, WgAdd 2,
            Go StderrCopy True, Go StdoutCopy True, Go StdinRelay False, Shell, WgWait] @
           (if stderr_ends env \<and> stdout_ends env then [SessionWait] else []) @ bs @
           (if stderr_ends env \<and> stdout_ends env \<and> remote_exits env then
              [Restore state,
               Println (exit_message (fst (snd (inputRelay (stdin_events env) t)))
                          (now_RFC822 env))]
            else [])"
proof (intro exI conjI)
  show "list_all by_goroutine (fst (snd (snd (request_pty env t))))"
    by (rule request_pty_by_goroutine)
  show "fst (snd (interactiveSession env t)) =
           [MakeRaw, GetSize, Getenv ''TERM'',
            RequestPty (if TERM_value env = [] then ''xterm-256color'' else TERM_value env) h w,
            Go SizeWatcher False, StdinPipe, StdoutPipe, StderrPipe, WgAdd 2,
            Go StderrCopy True, Go StdoutCopy True, Go StdinRelay False, Shell, WgWait] @
           (if stderr_ends env \<and> stdout_ends env then [SessionWait] else []) @
           fst (snd (snd (request_pty env t))) @
           (if stderr_ends env \<and> stdout_ends env \<and> remote_exits env then
              [Restore state,
               Println (exit_message (fst (snd (inputRelay (stdin_events env) t)))
                          (now_RFC822 env))]
            else [])"
    using assms
    by (simp add: interactiveSession_def request_pty_def open_streams_def relay_and_wait_def
        Let_def case_prod_unfold)
qed

text \<open>
  Claim C9.  In a session whose setup succeeds, the PTY is requested before each of
  the three pipes is opened, each pipe is opened before the shell is started, the
  shell is started before \<open>wg.Wait\<close>, the goroutines that \<open>wg.Wait\<close> waits for are the
  copies of the remote error and output streams and not the input relay, and
  \<open>Session.Wait\<close> is called only once both copies have ended, after \<open>wg.Wait\<close>.
\<close>

theorem setup_order:
  assumes "MakeRaw_result env = Inr state" and "GetSize_result env = Inr (w, h)"
    and "RequestPty_result env = None" and "StdinPipe_result env = None"
    and "StdoutPipe_result env = None" and "StderrPipe_result env = None"
    and "Shell_result env = None"
    and "termType = (if TERM_value env = [] then ''xterm-256color'' else TERM_value env)"
    and "as = fst (snd (interactiveSession env t))"
  shows "before (RequestPty termType h w) StdinPipe as \<and>
         before (RequestPty termType h w) StdoutPipe as \<and>
         before (RequestPty termType h w) StderrPipe as \<and>
         before StdinPipe Shell as \<and> before StdoutPipe Shell as \<and>
         before StderrPipe Shell as \<and>
         before Shell WgWait as \<and>
         awaited as = [StderrCopy, StdoutCopy] \<and>
         Go StdinRelay False \<in> set as \<and>
         (SessionWait \<in> set as \<longleftrightarrow> stderr_ends env \<and> stdout_ends env) \<and>
         (SessionWait \<in> set as \<longrightarrow> before WgWait SessionWait as)"
proof -
  from setup_trace[OF assms(1-7), of t] obtain bs where
    g: "list_all by_goroutine bs" and
    tr: "as =
           [MakeRaw, GetSize, Getenv ''TERM'', RequestPty termType h w,
            Go SizeWatcher False, StdinPipe, StdoutPipe, StderrPipe, WgAdd 2,
            Go StderrCopy True, Go StdoutCopy True, Go StdinRelay False, Shell, WgWait] @
           (if stderr_ends env \<and> stdout_ends env then [SessionWait] else []) @ bs @
           (if stderr_ends env \<and> stdout_ends env \<and> remote_exits env then
              [Restore state,
               Println (exit_message (fst (snd (inputRelay (stdin_events env) t)))
                          (now_RFC822 env))]
            else [])"
    unfolding assms(8,9) by blast
  have n: "SessionWait \<notin> set bs"
    using by_goroutine_notin[OF g, of SessionWait] by simp
  have a: "awaited bs = []"
    by (rule by_goroutine_not_awaited[OF g])
  show ?thesis
    unfolding tr using n a
    by (simp add: before_def awaited_append)
qed

theorem setup_order_witness:
  "before (RequestPty ''xterm-256color'' 24 80) StdinPipe
     (fst (snd (interactiveSession calm_session \<lparr>exitMsg = []\<rparr>))) \<and>
   before StderrPipe Shell (fst (snd (interactiveSession calm_session \<lparr>exitMsg = []\<rparr>))) \<and>
   before WgWait SessionWait (fst (snd (interactiveSession calm_session \<lparr>exitMsg = []\<rparr>))) \<and>
   awaited (fst (snd (interactiveSession calm_session \<lparr>exitMsg = []\<rparr>))) =
     [StderrCopy, StdoutCopy]"
  using setup_order[of calm_session 7 80 24 "''xterm-256color''"
      "fst (snd (interactiveSession calm_session \<lparr>exitMsg = []\<rparr>))" "\<lparr>exitMsg = []\<rparr>"]
  by (simp add: calm_session_def)

section \<open>The transport connector: results\<close>

lemma interactiveSession_no_dial:
  "filter is_Dial (fst (snd (interactiveSession env t))) = []"
  using request_pty_parts[of env t] by_goroutine_no_Dial[OF request_pty_by_goroutine[of env t]]
  by (simp add: interactiveSession_def Let_def case_prod_unfold split: sum.splits outcome.splits)


lemma add_auth_no_dial: "filter is_Dial (snd (add_auth env server sshConfig)) = []"
  by (simp add: add_auth_def Let_def split: sum.splits)

lemma dial_and_run_dials:
  "filter is_Dial (snd (dial_and_run env server sshConfig)) =
     [Dial (Address server @ '':'' @ int_dec (Port server)) sshConfig]"
  using interactiveSession_no_dial[of "session env" "\<lparr>exitMsg = []\<rparr>"]
  by (simp add: dial_and_run_def Let_def case_prod_unfold split: option.splits outcome.splits)

lemma connectToServer_dials:
  "filter is_Dial (snd (connectToServer env server)) =
     (case fst (add_auth env server
                  \<lparr>ConfigUser = User server, Auth = [], HostKeyCallback = InsecureIgnoreHostKey\<rparr>) of
        Inl err \<Rightarrow> []
      | Inr sshConfig \<Rightarrow> [Dial (Address server @ '':'' @ int_dec (Port server)) sshConfig])"
  using add_auth_no_dial[of env server] dial_and_run_dials[of env server]
  by (simp add: connectToServer_def Let_def case_prod_unfold split: sum.splits prod.splits)

lemma connectToServer_dials_first:
  "fst (add_auth env server
          \<lparr>ConfigUser = User server, Auth = [], HostKeyCallback = InsecureIgnoreHostKey\<rparr>) =
     Inr sshConfig \<Longrightarrow>
   snd (add_auth env server
          \<lparr>ConfigUser = User server, Auth = [], HostKeyCallback = InsecureIgnoreHostKey\<rparr>) = [] \<Longrightarrow>
   \<exists>r as. connectToServer env server =
     (r, Dial (Address server @ '':'' @ int_dec (Port server)) sshConfig # as)"
  by (cases "add_auth env server
          \<lparr>ConfigUser = User server, Auth = [], HostKeyCallback = InsecureIgnoreHostKey\<rparr>")
     (simp add: connectToServer_def dial_and_run_def Let_def case_prod_unfold
        split: option.splits outcome.splits)




lemmas connect_defs =
  connectToServer_def add_auth_def dial_and_run_def getHomeDir_def keyPath_def
  open_host_def db1_def

lemma int_dec_22: "int_dec 22 = ''22''"
  by (simp add: int_dec_def nat_dec.simps digit_def)

text \<open>
  Claim C3.  \<open>connectToServer\<close> dials once, unless the key cannot be loaded, and the
  configuration it dials with holds the key alone when \<open>UseKey\<close> is set (the password
  is never added), the password alone when \<open>UseKey\<close> is not set and the password is not
  empty, and no method otherwise; with no method the dial is still the first action,
  and \<open>connectToServer\<close> goes on from its answer.
\<close>

theorem connectToServer_auth_methods:
  "filter is_Dial (snd (connectToServer env server)) =
     (if UseKey server then
        (case getHomeDir env of
           Inl err \<Rightarrow> []
         | Inr homeDir \<Rightarrow>
             (case ReadFile_result env (keyPath (PrivateKey server) homeDir) of
                Inl err \<Rightarrow> []
              | Inr key \<Rightarrow>
                  (case ParsePrivateKey_result env key of
                     Inl err \<Rightarrow> []
                   | Inr privateKey \<Rightarrow>
                       [Dial (Address server @ '':'' @ int_dec (Port server))
                          \<lparr>ConfigUser = User server, Auth = [PublicKeys privateKey],
                             HostKeyCallback = InsecureIgnoreHostKey\<rparr>])))
      else if Password server \<noteq> [] then
        [Dial (Address server @ '':'' @ int_dec (Port server))
           \<lparr>ConfigUser = User server, Auth = [PasswordAuth (Password server)],
              HostKeyCallback = InsecureIgnoreHostKey\<rparr>]
      else
        [Dial (Address server @ '':'' @ int_dec (Port server))
           \<lparr>ConfigUser = User server, Auth = [], HostKeyCallback = InsecureIgnoreHostKey\<rparr>]) \<and>
   (\<forall>address sshConfig.
      Dial address sshConfig \<in> set (snd (connectToServer env server)) \<longrightarrow>
      (if UseKey server then
         (\<exists>homeDir key privateKey.
            getHomeDir env = Inr homeDir \<and>
            ReadFile_result env (keyPath (PrivateKey server) homeDir) = Inr key \<and>
            ParsePrivateKey_result env key = Inr privateKey \<and>
            Auth sshConfig = [PublicKeys privateKey])
       else if Password server \<noteq> [] then Auth sshConfig = [PasswordAuth (Password server)]
       else Auth sshConfig = [])) \<and>
   (\<not> UseKey server \<longrightarrow>
      (\<exists>r as. connectToServer env server =
         (r, Dial (Address server @ '':'' @ int_dec (Port server))
               \<lparr>ConfigUser = User server,
                  Auth = (if Password server \<noteq> [] then [PasswordAuth (Password server)] else []),
                  HostKeyCallback = InsecureIgnoreHostKey\<rparr> # as)))"
proof (intro conjI allI impI)
  show "filter is_Dial (snd (connectToServer env server)) =
     (if UseKey server then
        (case getHomeDir env of
           Inl err \<Rightarrow> []
         | Inr homeDir \<Rightarrow>
             (case ReadFile_result env (keyPath (PrivateKey server) homeDir) of
                Inl err \<Rightarrow> []
              | Inr key \<Rightarrow>
                  (case ParsePrivateKey_result env key of
                     Inl err \<Rightarrow> []
                   | Inr privateKey \<Rightarrow>
                       [Dial (Address server @ '':'' @ int_dec (Port server))
                          \<lparr>ConfigUser = User server, Auth = [PublicKeys privateKey],
                             HostKeyCallback = InsecureIgnoreHostKey\<rparr>])))
      else if Password server \<noteq> [] then
        [Dial (Address server @ '':'' @ int_dec (Port server))
           \<lparr>ConfigUser = User server, Auth = [PasswordAuth (Password server)],
              HostKeyCallback = InsecureIgnoreHostKey\<rparr>]
      else
        [Dial (Address server @ '':'' @ int_dec (Port server))
           \<lparr>ConfigUser = User server, Auth = [], HostKeyCallback = InsecureIgnoreHostKey\<rparr>])"
    unfolding connectToServer_dials
    by (simp add: add_auth_def Let_def split: sum.splits)
next
  fix address sshConfig
  assume "Dial address sshConfig \<in> set (snd (connectToServer env server))"
  then have "Dial address sshConfig \<in> set (filter is_Dial (snd (connectToServer env server)))"
    by simp
  then show "if UseKey server then
         (\<exists>homeDir key privateKey.
            getHomeDir env = Inr homeDir \<and>
            ReadFile_result env (keyPath (PrivateKey server) homeDir) = Inr key \<and>
            ParsePrivateKey_result env key = Inr privateKey \<and>
            Auth sshConfig = [PublicKeys privateKey])
       else if Password server \<noteq> [] then Auth sshConfig = [PasswordAuth (Password server)]
       else Auth sshConfig = []"
    unfolding connectToServer_dials
    by (auto simp: add_auth_def Let_def split: sum.splits if_splits)
next
  assume "\<not> UseKey server"
  then show "\<exists>r as. connectToServer env server =
         (r, Dial (Address server @ '':'' @ int_dec (Port server))
               \<lparr>ConfigUser = User server,
                  Auth = (if Password server \<noteq> [] then [PasswordAuth (Password server)] else []),
                  HostKeyCallback = InsecureIgnoreHostKey\<rparr> # as)"
    by (intro connectToServer_dials_first) (simp_all add: add_auth_def)
qed


theorem connectToServer_auth_methods_witness:
  "filter is_Dial (snd (connectToServer open_host db1)) =
     [Dial ''10.0.0.5:22''
        \<lparr>ConfigUser = ''ops'', Auth = [PublicKeys ''signer''],
           HostKeyCallback = InsecureIgnoreHostKey\<rparr>] \<and>
   filter is_Dial (snd (connectToServer open_host with_password)) =
     [Dial ''10.0.0.5:22''
        \<lparr>ConfigUser = ''ops'', Auth = [PasswordAuth ''s3cret''],
           HostKeyCallback = InsecureIgnoreHostKey\<rparr>] \<and>
   (\<exists>r as. connectToServer open_host with_password =
      (r, Dial ''10.0.0.5:22''
            \<lparr>ConfigUser = ''ops'', Auth = [PasswordAuth ''s3cret''],
               HostKeyCallback = InsecureIgnoreHostKey\<rparr> # as)) \<and>
   (\<exists>r as. connectToServer open_host with_nothing =
      (r, Dial ''10.0.0.5:22''
            \<lparr>ConfigUser = ''ops'', Auth = [], HostKeyCallback = InsecureIgnoreHostKey\<rparr> # as))"
proof -
  have k: "UseKey db1" "getHomeDir open_host = Inr ''/home/ann''"
    "ReadFile_result open_host (keyPath (PrivateKey db1) ''/home/ann'') = Inr ''PEM''"
    "ParsePrivateKey_result open_host ''PEM'' = Inr ''signer''"
    "Address db1 @ '':'' @ int_dec (Port db1) = ''10.0.0.5:22''" "User db1 = ''ops''"
    by (simp_all add: connect_defs int_dec_22)
  have p: "\<not> UseKey with_password" "Password with_password = ''s3cret''"
    "Address with_password @ '':'' @ int_dec (Port with_password) = ''10.0.0.5:22''"
    "User with_password = ''ops''"
    by (simp_all add: with_password_def db1_def int_dec_22)
  have n: "\<not> UseKey with_nothing" "Password with_nothing = []"
    "Address with_nothing @ '':'' @ int_dec (Port with_nothing) = ''10.0.0.5:22''"
    "User with_nothing = ''ops''"
    by (simp_all add: with_nothing_def db1_def int_dec_22)
  have a: "filter is_Dial (snd (connectToServer open_host db1)) =
     [Dial ''10.0.0.5:22''
        \<lparr>ConfigUser = ''ops'', Auth = [PublicKeys ''signer''],
           HostKeyCallback = InsecureIgnoreHostKey\<rparr>]"
    using connectToServer_auth_methods[of open_host db1] k by simp
  have b: "filter is_Dial (snd (connectToServer open_host with_password)) =
     [Dial ''10.0.0.5:22''
        \<lparr>ConfigUser = ''ops'', Auth = [PasswordAuth ''s3cret''],
           HostKeyCallback = InsecureIgnoreHostKey\<rparr>]"
    using connectToServer_auth_methods[of open_host with_password] p by simp
  have c: "\<exists>r as. connectToServer open_host with_password =
      (r, Dial ''10.0.0.5:22''
            \<lparr>ConfigUser = ''ops'', Auth = [PasswordAuth ''s3cret''],
               HostKeyCallback = InsecureIgnoreHostKey\<rparr> # as)"
    using connectToServer_auth_methods[of open_host with_password] p by simp
  have d: "\<exists>r as. connectToServer open_host with_nothing =
      (r, Dial ''10.0.0.5:22''
            \<lparr>ConfigUser = ''ops'', Auth = [], HostKeyCallback = InsecureIgnoreHostKey\<rparr> # as)"
    using connectToServer_auth_methods[of open_host with_nothing] n by simp
  from a b c d show ?thesis by blast
qed





section \<open>The command line: results\<close>

lemma selectServer_empty:
  "Servers config = [] \<Longrightarrow>
   selectServer env config =
     (Inl ''runtime error: index out of range [0] with length 0'',
      [Println ''Please select a server to connect to:'', Scanln])"
  by (simp add: selectServer_def select_by_flags_def select_by_choice_def first_server_def Let_def)

lemma find_member: "find P xs = Some x \<Longrightarrow> x \<in> set xs"
  by (induction xs) (auto split: if_splits)

lemma select_by_flags_member:
  "select_by_flags env config = Some server \<Longrightarrow> server \<in> set (Servers config)"
  by (auto simp: select_by_flags_def split: if_splits dest: find_member)

lemma select_by_choice_member:
  "fst (select_by_choice env config) = Some server \<Longrightarrow> server \<in> set (Servers config)"
  by (auto simp: select_by_choice_def Let_def dest: find_member)

lemma first_server_nonempty:
  "Servers config \<noteq> [] \<Longrightarrow> first_server config = Inr (hd (Servers config))"
  by (cases "Servers config") (simp_all add: first_server_def)

lemma selectServer_nonempty:
  assumes "Servers config \<noteq> []"
  shows "\<exists>server. fst (selectServer env config) = Inr server \<and> server \<in> set (Servers config)"
proof (cases "select_by_flags env config")
  case (Some server)
  then show ?thesis
    using select_by_flags_member[OF Some] by (simp add: selectServer_def)
next
  case None
  show ?thesis
  proof (cases "fst (select_by_choice env config)")
    case (Some server)
    then show ?thesis
      using None select_by_choice_member[OF Some]
      by (simp add: selectServer_def case_prod_unfold)
  next
    case inner: None
    then show ?thesis
      using None first_server_nonempty[OF assms] assms
      by (simp add: selectServer_def case_prod_unfold)
  qed
qed

lemma connect_and_report_no_panic: "fst (connect_and_report env server) \<noteq> MainPanics m"
  by (simp add: connect_and_report_def split: prod.splits outcome.splits option.splits)

lemma main_load_error:
  "loadConfig env = Inl err \<Longrightarrow>
   main env = (MainReturns, [Println (''Error loading config: '' @ Error_msg err)])"
  by (simp add: main_def)

lemma main_connects:
  assumes "loadConfig env = Inr config" and "Servers config \<noteq> []"
  shows "\<exists>server. server \<in> set (Servers config) \<and>
           fst (selectServer env config) = Inr server \<and>
           fst (main env) = fst (connect_and_report env server) \<and>
           snd (main env) = snd (selectServer env config) @ snd (connect_and_report env server)"
proof -
  from selectServer_nonempty[OF assms(2), of env]
  obtain server where s: "fst (selectServer env config) = Inr server"
    and m: "server \<in> set (Servers config)" by blast
  from s assms(1) have "fst (main env) = fst (connect_and_report env server) \<and>
      snd (main env) = snd (selectServer env config) @ snd (connect_and_report env server)"
    by (cases "selectServer env config") (simp add: main_def case_prod_unfold Let_def)
  with m s show ?thesis by blast
qed

lemma connect_and_report_lines:
  "snd (connect_and_report env server) =
     connecting_line server # snd (connectToServer (connect env) server) @
     (case fst (connectToServer (connect env) server) of
        Returns (Some err) \<Rightarrow> [Println (''Error: '' @ Error_msg err)]
      | Returns None \<Rightarrow> []
      | Blocks \<Rightarrow> [])"
  by (simp add: connect_and_report_def case_prod_unfold split: outcome.splits option.splits)

lemma connect_and_report_error:
  "fst (connectToServer (connect env) server) = Returns (Some err) \<Longrightarrow>
   connect_and_report env server =
     (MainReturns,
      connecting_line server # snd (connectToServer (connect env) server) @
      [Println (''Error: '' @ Error_msg err)])"
  by (simp add: connect_and_report_def case_prod_unfold)

text \<open>
  Claim C1, as the claim states it: the exit status is not zero when a stage fails.
  It is zero: when the inventory file cannot be opened, and when the host refuses
  the connection, \<open>main\<close> prints the error and returns.
\<close>

theorem failed_stage_exits_zero:
  "loadConfig no_config = Inl (Cause ''open config.json: no such file or directory'') \<and>
   exit_status (fst (main no_config)) = Some 0 \<and>
   fst (connectToServer (connect refused) db1) =
     Returns (Some (DialError ''10.0.0.5:22''
       (Cause ''dial tcp 10.0.0.5:22: connect: connection refused''))) \<and>
   exit_status (fst (main refused)) = Some 0"
  by code_simp

text \<open>
  Claim C1, amended.  A run that ends, with an inventory that does not load or that
  lists at least one server, ends with exit status 0, whether or not a stage has
  failed.  An inventory that does not load is reported by the one line
  \<open>Error loading config: ...\<close>; otherwise \<open>main\<close> connects to the selected server, and
  an error that \<open>connectToServer\<close> returns is reported by the line \<open>Error: ...\<close>, the last
  of the run.
\<close>

theorem main_exit_status:
  assumes "fst (main env) \<noteq> MainBlocks"
    and "\<forall>config. loadConfig env = Inr config \<longrightarrow> Servers config \<noteq> []"
  shows "exit_status (fst (main env)) = Some 0 \<and>
         (\<forall>err. loadConfig env = Inl err \<longrightarrow>
            snd (main env) = [Println (''Error loading config: '' @ Error_msg err)]) \<and>
         (\<forall>config. loadConfig env = Inr config \<longrightarrow>
            (\<exists>server. server \<in> set (Servers config) \<and>
               fst (selectServer env config) = Inr server \<and>
               snd (main env) =
                 snd (selectServer env config) @ connecting_line server #
                 snd (connectToServer (connect env) server) @
                 (case fst (connectToServer (connect env) server) of
                    Returns (Some err) \<Rightarrow> [Println (''Error: '' @ Error_msg err)]
                  | Returns None \<Rightarrow> []
                  | Blocks \<Rightarrow> [])))"
proof (cases "loadConfig env")
  case (Inl err)
  then show ?thesis by (simp add: main_load_error)
next
  case (Inr config)
  with assms(2) have "Servers config \<noteq> []" by simp
  from main_connects[OF Inr this] obtain server where
    m: "server \<in> set (Servers config)" and
    s: "fst (selectServer env config) = Inr server" and
    f: "fst (main env) = fst (connect_and_report env server)" and
    t: "snd (main env) = snd (selectServer env config) @ snd (connect_and_report env server)"
    by blast
  from f connect_and_report_no_panic have "\<forall>m. fst (main env) \<noteq> MainPanics m" by metis
  with assms(1) have e: "exit_status (fst (main env)) = Some 0"
    by (cases "fst (main env)") auto
  have "\<exists>server. server \<in> set (Servers config) \<and>
               fst (selectServer env config) = Inr server \<and>
               snd (main env) =
                 snd (selectServer env config) @ connecting_line server #
                 snd (connectToServer (connect env) server) @
                 (case fst (connectToServer (connect env) server) of
                    Returns (Some err) \<Rightarrow> [Println (''Error: '' @ Error_msg err)]
                  | Returns None \<Rightarrow> []
                  | Blocks \<Rightarrow> [])"
    using m s t unfolding connect_and_report_lines by blast
  with e Inr show ?thesis by simp
qed

theorem main_exit_status_witness:
  "fst (main refused) \<noteq> MainBlocks \<and>
   loadConfig refused = Inr \<lparr>Servers = [db1]\<rparr> \<and>
   fst (connectToServer (connect refused) db1) =
     Returns (Some (DialError ''10.0.0.5:22''
       (Cause ''dial tcp 10.0.0.5:22: connect: connection refused''))) \<and>
   exit_status (fst (main refused)) = Some 0 \<and>
   last (snd (main refused)) =
     Println (''Error: failed to connect to server 10.0.0.5:22: '' @
              ''dial tcp 10.0.0.5:22: connect: connection refused'') \<and>
   loadConfig no_config = Inl (Cause ''open config.json: no such file or directory'') \<and>
   main no_config =
     (MainReturns, [Println ''Error loading config: open config.json: no such file or directory''])"
proof -
  have a: "fst (main refused) \<noteq> MainBlocks"
    by code_simp
  have b: "loadConfig refused = Inr \<lparr>Servers = [db1]\<rparr>"
    by (simp add: loadConfig_def refused_def plain_run_def)
  have c: "\<forall>config. loadConfig refused = Inr config \<longrightarrow> Servers config \<noteq> []"
    using b by auto
  have d: "fst (connectToServer (connect refused) db1) =
     Returns (Some (DialError ''10.0.0.5:22''
       (Cause ''dial tcp 10.0.0.5:22: connect: connection refused'')))"
    by code_simp
  from main_exit_status[OF a c] b obtain server where
    e: "exit_status (fst (main refused)) = Some 0" and
    m: "server \<in> set [db1]" and
    t: "snd (main refused) =
          snd (selectServer refused \<lparr>Servers = [db1]\<rparr>) @ connecting_line server #
          snd (connectToServer (connect refused) server) @
          (case fst (connectToServer (connect refused) server) of
             Returns (Some err) \<Rightarrow> [Println (''Error: '' @ Error_msg err)]
           | Returns None \<Rightarrow> []
           | Blocks \<Rightarrow> [])"
    by auto
  from m have "server = db1" by simp
  with t d have l: "last (snd (main refused)) =
     Println (''Error: failed to connect to server 10.0.0.5:22: '' @
              ''dial tcp 10.0.0.5:22: connect: connection refused'')"
    by simp
  have f: "fst (main no_config) \<noteq> MainBlocks"
    by code_simp
  have g: "loadConfig no_config = Inl (Cause ''open config.json: no such file or directory'')"
    by (simp add: loadConfig_def no_config_def)
  have h: "\<forall>config. loadConfig no_config = Inr config \<longrightarrow> Servers config \<noteq> []"
    using g by simp
  from main_exit_status[OF f h] g have
    i: "exit_status (fst (main no_config)) = Some 0" and
    j: "snd (main no_config) =
          [Println ''Error loading config: open config.json: no such file or directory'']"
    by simp_all
  from i have "fst (main no_config) = MainReturns"
    by (cases "fst (main no_config)") simp_all
  with j have k: "main no_config =
     (MainReturns, [Println ''Error loading config: open config.json: no such file or directory''])"
    by (cases "main no_config") simp
  from a b d e l g k show ?thesis by blast
qed

text \<open>
  Claim C10.  With an inventory that loads and lists no server, no selector matches,
  the fallback \<open>config.Servers[0]\<close> panics, and the process ends with status 2 before
  any connection is made; with at least one server \<open>main\<close> does not panic.
\<close>

theorem empty_inventory_panics:
  assumes "loadConfig env = Inr config"
  shows "(Servers config = [] \<longrightarrow>
            fst (main env) = MainPanics ''runtime error: index out of range [0] with length 0'' \<and>
            exit_status (fst (main env)) = Some 2 \<and>
            filter is_Dial (snd (main env)) = []) \<and>
         (Servers config \<noteq> [] \<longrightarrow> (\<forall>m. fst (main env) \<noteq> MainPanics m))"
proof (intro conjI impI allI)
  assume e: "Servers config = []"
  show "fst (main env) = MainPanics ''runtime error: index out of range [0] with length 0''"
    using assms by (simp add: main_def selectServer_empty[OF e])
  then show "exit_status (fst (main env)) = Some 2" by simp
  show "filter is_Dial (snd (main env)) = []"
    using assms by (simp add: main_def selectServer_empty[OF e])
next
  fix m
  assume "Servers config \<noteq> []"
  from main_connects[OF assms this] connect_and_report_no_panic
  show "fst (main env) \<noteq> MainPanics m" by metis
qed

theorem empty_inventory_panics_witness:
  "loadConfig empty_inventory = Inr \<lparr>Servers = []\<rparr> \<and>
   fst (main empty_inventory) =
     MainPanics ''runtime error: index out of range [0] with length 0'' \<and>
   exit_status (fst (main empty_inventory)) = Some 2 \<and>
   loadConfig plain_run = Inr \<lparr>Servers = [db1]\<rparr> \<and>
   fst (main plain_run) \<noteq> MainPanics ''runtime error: index out of range [0] with length 0''"
proof -
  have a: "loadConfig empty_inventory = Inr \<lparr>Servers = []\<rparr>"
    by (simp add: loadConfig_def empty_inventory_def plain_run_def)
  have b: "loadConfig plain_run = Inr \<lparr>Servers = [db1]\<rparr>"
    by (simp add: loadConfig_def plain_run_def)
  show ?thesis
    using a b empty_inventory_panics[OF a] empty_inventory_panics[OF b] by simp
qed

end
